theory Spec2Isabelle
  imports Main
begin

section \<open>Python strings\<close>

text \<open>
  A Python \<^verbatim>\<open>str\<close> is a sequence of Unicode code points; \<^verbatim>\<open>len\<close>, indexing,
  \<^verbatim>\<open>strip\<close> and the \<^verbatim>\<open>re\<close> module all work on code points. A code point is modelled
  as a natural number and a string as a list of them. The bullet glyphs of the source's
  patterns are U+2022 (8226), U+25CF (9679) and U+203B (8251).
\<close>

type_synonym codepoint = nat
type_synonym pystr = "codepoint list"

definition str :: "string \<Rightarrow> pystr" where
  "str s = map of_char s"

subsection \<open>The character tables of the Python runtime\<close>

text \<open>
  \<^verbatim>\<open>str.strip()\<close>, \<^verbatim>\<open>\s\<close>, \<^verbatim>\<open>\d\<close> and \<^verbatim>\<open>str.isupper()\<close> read the Unicode
  character database compiled into the interpreter (\<^verbatim>\<open>Py_UNICODE_ISSPACE\<close>,
  \<^verbatim>\<open>Py_UNICODE_ISDECIMAL\<close>, \<^verbatim>\<open>Py_UNICODE_ISUPPER\<close>, \<^verbatim>\<open>Py_UNICODE_ISLOWER\<close>,
  \<^verbatim>\<open>Py_UNICODE_ISTITLE\<close>). The tables below are those of CPython 3.11 (Unicode 14.0),
  as sorted lists of inclusive code point ranges.
\<close>

fun in_ranges :: "nat \<Rightarrow> (nat \<times> nat) list \<Rightarrow> bool" where
  "in_ranges c [] = False"
| "in_ranges c ((lo, hi) # rs) =
     (if c < lo then False else if c \<le> hi then True else in_ranges c rs)"

definition whitespace_ranges :: "(nat \<times> nat) list" where
  "whitespace_ranges =
    [(9, 13), (28, 32), (133, 133), (160, 160), (5760, 5760), (8192, 8202), (8232, 8233),
     (8239, 8239), (8287, 8287), (12288, 12288)]"

definition decimal_ranges :: "(nat \<times> nat) list" where
  "decimal_ranges =
    [(48, 57), (1632, 1641), (1776, 1785), (1984, 1993), (2406, 2415), (2534, 2543),
     (2662, 2671), (2790, 2799), (2918, 2927), (3046, 3055), (3174, 3183), (3302, 3311),
     (3430, 3439), (3558, 3567), (3664, 3673), (3792, 3801), (3872, 3881), (4160, 4169),
     (4240, 4249), (6112, 6121), (6160, 6169), (6470, 6479), (6608, 6617), (6784, 6793),
     (6800, 6809), (6992, 7001), (7088, 7097), (7232, 7241), (7248, 7257), (42528, 42537),
     (43216, 43225), (43264, 43273), (43472, 43481), (43504, 43513), (43600, 43609),
     (44016, 44025), (65296, 65305), (66720, 66729), (68912, 68921), (69734, 69743),
     (69872, 69881), (69942, 69951), (70096, 70105), (70384, 70393), (70736, 70745),
     (70864, 70873), (71248, 71257), (71360, 71369), (71472, 71481), (71904, 71913),
     (72016, 72025), (72784, 72793), (73040, 73049), (73120, 73129), (92768, 92777),
     (92864, 92873), (93008, 93017), (120782, 120831), (123200, 123209), (123632, 123641),
     (125264, 125273), (130032, 130041)]"

definition uppercase_ranges :: "(nat \<times> nat) list" where
  "uppercase_ranges =
    [(65, 90), (192, 214), (216, 222), (256, 256), (258, 258), (260, 260), (262, 262),
     (264, 264), (266, 266), (268, 268), (270, 270), (272, 272), (274, 274), (276, 276),
     (278, 278), (280, 280), (282, 282), (284, 284), (286, 286), (288, 288), (290, 290),
     (292, 292), (294, 294), (296, 296), (298, 298), (300, 300), (302, 302), (304, 304),
     (306, 306), (308, 308), (310, 310), (313, 313), (315, 315), (317, 317), (319, 319),
     (321, 321), (323, 323), (325, 325), (327, 327), (330, 330), (332, 332), (334, 334),
     (336, 336), (338, 338), (340, 340), (342, 342), (344, 344), (346, 346), (348, 348),
     (350, 350), (352, 352), (354, 354), (356, 356), (358, 358), (360, 360), (362, 362),
     (364, 364), (366, 366), (368, 368), (370, 370), (372, 372), (374, 374), (376, 377),
     (379, 379), (381, 381), (385, 386), (388, 388), (390, 391), (393, 395), (398, 401),
     (403, 404), (406, 408), (412, 413), (415, 416), (418, 418), (420, 420), (422, 423),
     (425, 425), (428, 428), (430, 431), (433, 435), (437, 437), (439, 440), (444, 444),
     (452, 452), (455, 455), (458, 458), (461, 461), (463, 463), (465, 465), (467, 467),
     (469, 469), (471, 471), (473, 473), (475, 475), (478, 478), (480, 480), (482, 482),
     (484, 484), (486, 486), (488, 488), (490, 490), (492, 492), (494, 494), (497, 497),
     (500, 500), (502, 504), (506, 506), (508, 508), (510, 510), (512, 512), (514, 514),
     (516, 516), (518, 518), (520, 520), (522, 522), (524, 524), (526, 526), (528, 528),
     (530, 530), (532, 532), (534, 534), (536, 536), (538, 538), (540, 540), (542, 542),
     (544, 544), (546, 546), (548, 548), (550, 550), (552, 552), (554, 554), (556, 556),
     (558, 558), (560, 560), (562, 562), (570, 571), (573, 574), (577, 577), (579, 582),
     (584, 584), (586, 586), (588, 588), (590, 590), (880, 880), (882, 882), (886, 886),
     (895, 895), (902, 902), (904, 906), (908, 908), (910, 911), (913, 929), (931, 939),
     (975, 975), (978, 980), (984, 984), (986, 986), (988, 988), (990, 990), (992, 992),
     (994, 994), (996, 996), (998, 998), (1000, 1000), (1002, 1002), (1004, 1004),
     (1006, 1006), (1012, 1012), (1015, 1015), (1017, 1018), (1021, 1071), (1120, 1120),
     (1122, 1122), (1124, 1124), (1126, 1126), (1128, 1128), (1130, 1130), (1132, 1132),
     (1134, 1134), (1136, 1136), (1138, 1138), (1140, 1140), (1142, 1142), (1144, 1144),
     (1146, 1146), (1148, 1148), (1150, 1150), (1152, 1152), (1162, 1162), (1164, 1164),
     (1166, 1166), (1168, 1168), (1170, 1170), (1172, 1172), (1174, 1174), (1176, 1176),
     (1178, 1178), (1180, 1180), (1182, 1182), (1184, 1184), (1186, 1186), (1188, 1188),
     (1190, 1190), (1192, 1192), (1194, 1194), (1196, 1196), (1198, 1198), (1200, 1200),
     (1202, 1202), (1204, 1204), (1206, 1206), (1208, 1208), (1210, 1210), (1212, 1212),
     (1214, 1214), (1216, 1217), (1219, 1219), (1221, 1221), (1223, 1223), (1225, 1225),
     (1227, 1227), (1229, 1229), (1232, 1232), (1234, 1234), (1236, 1236), (1238, 1238),
     (1240, 1240), (1242, 1242), (1244, 1244), (1246, 1246), (1248, 1248), (1250, 1250),
     (1252, 1252), (1254, 1254), (1256, 1256), (1258, 1258), (1260, 1260), (1262, 1262),
     (1264, 1264), (1266, 1266), (1268, 1268), (1270, 1270), (1272, 1272), (1274, 1274),
     (1276, 1276), (1278, 1278), (1280, 1280), (1282, 1282), (1284, 1284), (1286, 1286),
     (1288, 1288), (1290, 1290), (1292, 1292), (1294, 1294), (1296, 1296), (1298, 1298),
     (1300, 1300), (1302, 1302), (1304, 1304), (1306, 1306), (1308, 1308), (1310, 1310),
     (1312, 1312), (1314, 1314), (1316, 1316), (1318, 1318), (1320, 1320), (1322, 1322),
     (1324, 1324), (1326, 1326), (1329, 1366), (4256, 4293), (4295, 4295), (4301, 4301),
     (5024, 5109), (7312, 7354), (7357, 7359), (7680, 7680), (7682, 7682), (7684, 7684),
     (7686, 7686), (7688, 7688), (7690, 7690), (7692, 7692), (7694, 7694), (7696, 7696),
     (7698, 7698), (7700, 7700), (7702, 7702), (7704, 7704), (7706, 7706), (7708, 7708),
     (7710, 7710), (7712, 7712), (7714, 7714), (7716, 7716), (7718, 7718), (7720, 7720),
     (7722, 7722), (7724, 7724), (7726, 7726), (7728, 7728), (7730, 7730), (7732, 7732),
     (7734, 7734), (7736, 7736), (7738, 7738), (7740, 7740), (7742, 7742), (7744, 7744),
     (7746, 7746), (7748, 7748), (7750, 7750), (7752, 7752), (7754, 7754), (7756, 7756),
     (7758, 7758), (7760, 7760), (7762, 7762), (7764, 7764), (7766, 7766), (7768, 7768),
     (7770, 7770), (7772, 7772), (7774, 7774), (7776, 7776), (7778, 7778), (7780, 7780),
     (7782, 7782), (7784, 7784), (7786, 7786), (7788, 7788), (7790, 7790), (7792, 7792),
     (7794, 7794), (7796, 7796), (7798, 7798), (7800, 7800), (7802, 7802), (7804, 7804),
     (7806, 7806), (7808, 7808), (7810, 7810), (7812, 7812), (7814, 7814), (7816, 7816),
     (7818, 7818), (7820, 7820), (7822, 7822), (7824, 7824), (7826, 7826), (7828, 7828),
     (7838, 7838), (7840, 7840), (7842, 7842), (7844, 7844), (7846, 7846), (7848, 7848),
     (7850, 7850), (7852, 7852), (7854, 7854), (7856, 7856), (7858, 7858), (7860, 7860),
     (7862, 7862), (7864, 7864), (7866, 7866), (7868, 7868), (7870, 7870), (7872, 7872),
     (7874, 7874), (7876, 7876), (7878, 7878), (7880, 7880), (7882, 7882), (7884, 7884),
     (7886, 7886), (7888, 7888), (7890, 7890), (7892, 7892), (7894, 7894), (7896, 7896),
     (7898, 7898), (7900, 7900), (7902, 7902), (7904, 7904), (7906, 7906), (7908, 7908),
     (7910, 7910), (7912, 7912), (7914, 7914), (7916, 7916), (7918, 7918), (7920, 7920),
     (7922, 7922), (7924, 7924), (7926, 7926), (7928, 7928), (7930, 7930), (7932, 7932),
     (7934, 7934), (7944, 7951), (7960, 7965), (7976, 7983), (7992, 7999), (8008, 8013),
     (8025, 8025), (8027, 8027), (8029, 8029), (8031, 8031), (8040, 8047), (8120, 8123),
     (8136, 8139), (8152, 8155), (8168, 8172), (8184, 8187), (8450, 8450), (8455, 8455),
     (8459, 8461), (8464, 8466), (8469, 8469), (8473, 8477), (8484, 8484), (8486, 8486),
     (8488, 8488), (8490, 8493), (8496, 8499), (8510, 8511), (8517, 8517), (8544, 8559),
     (8579, 8579), (9398, 9423), (11264, 11311), (11360, 11360), (11362, 11364),
     (11367, 11367), (11369, 11369), (11371, 11371), (11373, 11376), (11378, 11378),
     (11381, 11381), (11390, 11392), (11394, 11394), (11396, 11396), (11398, 11398),
     (11400, 11400), (11402, 11402), (11404, 11404), (11406, 11406), (11408, 11408),
     (11410, 11410), (11412, 11412), (11414, 11414), (11416, 11416), (11418, 11418),
     (11420, 11420), (11422, 11422), (11424, 11424), (11426, 11426), (11428, 11428),
     (11430, 11430), (11432, 11432), (11434, 11434), (11436, 11436), (11438, 11438),
     (11440, 11440), (11442, 11442), (11444, 11444), (11446, 11446), (11448, 11448),
     (11450, 11450), (11452, 11452), (11454, 11454), (11456, 11456), (11458, 11458),
     (11460, 11460), (11462, 11462), (11464, 11464), (11466, 11466), (11468, 11468),
     (11470, 11470), (11472, 11472), (11474, 11474), (11476, 11476), (11478, 11478),
     (11480, 11480), (11482, 11482), (11484, 11484), (11486, 11486), (11488, 11488),
     (11490, 11490), (11499, 11499), (11501, 11501), (11506, 11506), (42560, 42560),
     (42562, 42562), (42564, 42564), (42566, 42566), (42568, 42568), (42570, 42570),
     (42572, 42572), (42574, 42574), (42576, 42576), (42578, 42578), (42580, 42580),
     (42582, 42582), (42584, 42584), (42586, 42586), (42588, 42588), (42590, 42590),
     (42592, 42592), (42594, 42594), (42596, 42596), (42598, 42598), (42600, 42600),
     (42602, 42602), (42604, 42604), (42624, 42624), (42626, 42626), (42628, 42628),
     (42630, 42630), (42632, 42632), (42634, 42634), (42636, 42636), (42638, 42638),
     (42640, 42640), (42642, 42642), (42644, 42644), (42646, 42646), (42648, 42648),
     (42650, 42650), (42786, 42786), (42788, 42788), (42790, 42790), (42792, 42792),
     (42794, 42794), (42796, 42796), (42798, 42798), (42802, 42802), (42804, 42804),
     (42806, 42806), (42808, 42808), (42810, 42810), (42812, 42812), (42814, 42814),
     (42816, 42816), (42818, 42818), (42820, 42820), (42822, 42822), (42824, 42824),
     (42826, 42826), (42828, 42828), (42830, 42830), (42832, 42832), (42834, 42834),
     (42836, 42836), (42838, 42838), (42840, 42840), (42842, 42842), (42844, 42844),
     (42846, 42846), (42848, 42848), (42850, 42850), (42852, 42852), (42854, 42854),
     (42856, 42856), (42858, 42858), (42860, 42860), (42862, 42862), (42873, 42873),
     (42875, 42875), (42877, 42878), (42880, 42880), (42882, 42882), (42884, 42884),
     (42886, 42886), (42891, 42891), (42893, 42893), (42896, 42896), (42898, 42898),
     (42902, 42902), (42904, 42904), (42906, 42906), (42908, 42908), (42910, 42910),
     (42912, 42912), (42914, 42914), (42916, 42916), (42918, 42918), (42920, 42920),
     (42922, 42926), (42928, 42932), (42934, 42934), (42936, 42936), (42938, 42938),
     (42940, 42940), (42942, 42942), (42944, 42944), (42946, 42946), (42948, 42951),
     (42953, 42953), (42960, 42960), (42966, 42966), (42968, 42968), (42997, 42997),
     (65313, 65338), (66560, 66599), (66736, 66771), (66928, 66938), (66940, 66954),
     (66956, 66962), (66964, 66965), (68736, 68786), (71840, 71871), (93760, 93791),
     (119808, 119833), (119860, 119885), (119912, 119937), (119964, 119964), (119966, 119967),
     (119970, 119970), (119973, 119974), (119977, 119980), (119982, 119989), (120016, 120041),
     (120068, 120069), (120071, 120074), (120077, 120084), (120086, 120092), (120120, 120121),
     (120123, 120126), (120128, 120132), (120134, 120134), (120138, 120144), (120172, 120197),
     (120224, 120249), (120276, 120301), (120328, 120353), (120380, 120405), (120432, 120457),
     (120488, 120512), (120546, 120570), (120604, 120628), (120662, 120686), (120720, 120744),
     (120778, 120778), (125184, 125217), (127280, 127305), (127312, 127337), (127344, 127369)]"

definition lowercase_ranges :: "(nat \<times> nat) list" where
  "lowercase_ranges =
    [(97, 122), (170, 170), (181, 181), (186, 186), (223, 246), (248, 255), (257, 257),
     (259, 259), (261, 261), (263, 263), (265, 265), (267, 267), (269, 269), (271, 271),
     (273, 273), (275, 275), (277, 277), (279, 279), (281, 281), (283, 283), (285, 285),
     (287, 287), (289, 289), (291, 291), (293, 293), (295, 295), (297, 297), (299, 299),
     (301, 301), (303, 303), (305, 305), (307, 307), (309, 309), (311, 312), (314, 314),
     (316, 316), (318, 318), (320, 320), (322, 322), (324, 324), (326, 326), (328, 329),
     (331, 331), (333, 333), (335, 335), (337, 337), (339, 339), (341, 341), (343, 343),
     (345, 345), (347, 347), (349, 349), (351, 351), (353, 353), (355, 355), (357, 357),
     (359, 359), (361, 361), (363, 363), (365, 365), (367, 367), (369, 369), (371, 371),
     (373, 373), (375, 375), (378, 378), (380, 380), (382, 384), (387, 387), (389, 389),
     (392, 392), (396, 397), (402, 402), (405, 405), (409, 411), (414, 414), (417, 417),
     (419, 419), (421, 421), (424, 424), (426, 427), (429, 429), (432, 432), (436, 436),
     (438, 438), (441, 442), (445, 447), (454, 454), (457, 457), (460, 460), (462, 462),
     (464, 464), (466, 466), (468, 468), (470, 470), (472, 472), (474, 474), (476, 477),
     (479, 479), (481, 481), (483, 483), (485, 485), (487, 487), (489, 489), (491, 491),
     (493, 493), (495, 496), (499, 499), (501, 501), (505, 505), (507, 507), (509, 509),
     (511, 511), (513, 513), (515, 515), (517, 517), (519, 519), (521, 521), (523, 523),
     (525, 525), (527, 527), (529, 529), (531, 531), (533, 533), (535, 535), (537, 537),
     (539, 539), (541, 541), (543, 543), (545, 545), (547, 547), (549, 549), (551, 551),
     (553, 553), (555, 555), (557, 557), (559, 559), (561, 561), (563, 569), (572, 572),
     (575, 576), (578, 578), (583, 583), (585, 585), (587, 587), (589, 589), (591, 659),
     (661, 696), (704, 705), (736, 740), (837, 837), (881, 881), (883, 883), (887, 887),
     (890, 893), (912, 912), (940, 974), (976, 977), (981, 983), (985, 985), (987, 987),
     (989, 989), (991, 991), (993, 993), (995, 995), (997, 997), (999, 999), (1001, 1001),
     (1003, 1003), (1005, 1005), (1007, 1011), (1013, 1013), (1016, 1016), (1019, 1020),
     (1072, 1119), (1121, 1121), (1123, 1123), (1125, 1125), (1127, 1127), (1129, 1129),
     (1131, 1131), (1133, 1133), (1135, 1135), (1137, 1137), (1139, 1139), (1141, 1141),
     (1143, 1143), (1145, 1145), (1147, 1147), (1149, 1149), (1151, 1151), (1153, 1153),
     (1163, 1163), (1165, 1165), (1167, 1167), (1169, 1169), (1171, 1171), (1173, 1173),
     (1175, 1175), (1177, 1177), (1179, 1179), (1181, 1181), (1183, 1183), (1185, 1185),
     (1187, 1187), (1189, 1189), (1191, 1191), (1193, 1193), (1195, 1195), (1197, 1197),
     (1199, 1199), (1201, 1201), (1203, 1203), (1205, 1205), (1207, 1207), (1209, 1209),
     (1211, 1211), (1213, 1213), (1215, 1215), (1218, 1218), (1220, 1220), (1222, 1222),
     (1224, 1224), (1226, 1226), (1228, 1228), (1230, 1231), (1233, 1233), (1235, 1235),
     (1237, 1237), (1239, 1239), (1241, 1241), (1243, 1243), (1245, 1245), (1247, 1247),
     (1249, 1249), (1251, 1251), (1253, 1253), (1255, 1255), (1257, 1257), (1259, 1259),
     (1261, 1261), (1263, 1263), (1265, 1265), (1267, 1267), (1269, 1269), (1271, 1271),
     (1273, 1273), (1275, 1275), (1277, 1277), (1279, 1279), (1281, 1281), (1283, 1283),
     (1285, 1285), (1287, 1287), (1289, 1289), (1291, 1291), (1293, 1293), (1295, 1295),
     (1297, 1297), (1299, 1299), (1301, 1301), (1303, 1303), (1305, 1305), (1307, 1307),
     (1309, 1309), (1311, 1311), (1313, 1313), (1315, 1315), (1317, 1317), (1319, 1319),
     (1321, 1321), (1323, 1323), (1325, 1325), (1327, 1327), (1376, 1416), (4304, 4346),
     (4349, 4351), (5112, 5117), (7296, 7304), (7424, 7615), (7681, 7681), (7683, 7683),
     (7685, 7685), (7687, 7687), (7689, 7689), (7691, 7691), (7693, 7693), (7695, 7695),
     (7697, 7697), (7699, 7699), (7701, 7701), (7703, 7703), (7705, 7705), (7707, 7707),
     (7709, 7709), (7711, 7711), (7713, 7713), (7715, 7715), (7717, 7717), (7719, 7719),
     (7721, 7721), (7723, 7723), (7725, 7725), (7727, 7727), (7729, 7729), (7731, 7731),
     (7733, 7733), (7735, 7735), (7737, 7737), (7739, 7739), (7741, 7741), (7743, 7743),
     (7745, 7745), (7747, 7747), (7749, 7749), (7751, 7751), (7753, 7753), (7755, 7755),
     (7757, 7757), (7759, 7759), (7761, 7761), (7763, 7763), (7765, 7765), (7767, 7767),
     (7769, 7769), (7771, 7771), (7773, 7773), (7775, 7775), (7777, 7777), (7779, 7779),
     (7781, 7781), (7783, 7783), (7785, 7785), (7787, 7787), (7789, 7789), (7791, 7791),
     (7793, 7793), (7795, 7795), (7797, 7797), (7799, 7799), (7801, 7801), (7803, 7803),
     (7805, 7805), (7807, 7807), (7809, 7809), (7811, 7811), (7813, 7813), (7815, 7815),
     (7817, 7817), (7819, 7819), (7821, 7821), (7823, 7823), (7825, 7825), (7827, 7827),
     (7829, 7837), (7839, 7839), (7841, 7841), (7843, 7843), (7845, 7845), (7847, 7847),
     (7849, 7849), (7851, 7851), (7853, 7853), (7855, 7855), (7857, 7857), (7859, 7859),
     (7861, 7861), (7863, 7863), (7865, 7865), (7867, 7867), (7869, 7869), (7871, 7871),
     (7873, 7873), (7875, 7875), (7877, 7877), (7879, 7879), (7881, 7881), (7883, 7883),
     (7885, 7885), (7887, 7887), (7889, 7889), (7891, 7891), (7893, 7893), (7895, 7895),
     (7897, 7897), (7899, 7899), (7901, 7901), (7903, 7903), (7905, 7905), (7907, 7907),
     (7909, 7909), (7911, 7911), (7913, 7913), (7915, 7915), (7917, 7917), (7919, 7919),
     (7921, 7921), (7923, 7923), (7925, 7925), (7927, 7927), (7929, 7929), (7931, 7931),
     (7933, 7933), (7935, 7943), (7952, 7957), (7968, 7975), (7984, 7991), (8000, 8005),
     (8016, 8023), (8032, 8039), (8048, 8061), (8064, 8071), (8080, 8087), (8096, 8103),
     (8112, 8116), (8118, 8119), (8126, 8126), (8130, 8132), (8134, 8135), (8144, 8147),
     (8150, 8151), (8160, 8167), (8178, 8180), (8182, 8183), (8305, 8305), (8319, 8319),
     (8336, 8348), (8458, 8458), (8462, 8463), (8467, 8467), (8495, 8495), (8500, 8500),
     (8505, 8505), (8508, 8509), (8518, 8521), (8526, 8526), (8560, 8575), (8580, 8580),
     (9424, 9449), (11312, 11359), (11361, 11361), (11365, 11366), (11368, 11368),
     (11370, 11370), (11372, 11372), (11377, 11377), (11379, 11380), (11382, 11389),
     (11393, 11393), (11395, 11395), (11397, 11397), (11399, 11399), (11401, 11401),
     (11403, 11403), (11405, 11405), (11407, 11407), (11409, 11409), (11411, 11411),
     (11413, 11413), (11415, 11415), (11417, 11417), (11419, 11419), (11421, 11421),
     (11423, 11423), (11425, 11425), (11427, 11427), (11429, 11429), (11431, 11431),
     (11433, 11433), (11435, 11435), (11437, 11437), (11439, 11439), (11441, 11441),
     (11443, 11443), (11445, 11445), (11447, 11447), (11449, 11449), (11451, 11451),
     (11453, 11453), (11455, 11455), (11457, 11457), (11459, 11459), (11461, 11461),
     (11463, 11463), (11465, 11465), (11467, 11467), (11469, 11469), (11471, 11471),
     (11473, 11473), (11475, 11475), (11477, 11477), (11479, 11479), (11481, 11481),
     (11483, 11483), (11485, 11485), (11487, 11487), (11489, 11489), (11491, 11492),
     (11500, 11500), (11502, 11502), (11507, 11507), (11520, 11557), (11559, 11559),
     (11565, 11565), (42561, 42561), (42563, 42563), (42565, 42565), (42567, 42567),
     (42569, 42569), (42571, 42571), (42573, 42573), (42575, 42575), (42577, 42577),
     (42579, 42579), (42581, 42581), (42583, 42583), (42585, 42585), (42587, 42587),
     (42589, 42589), (42591, 42591), (42593, 42593), (42595, 42595), (42597, 42597),
     (42599, 42599), (42601, 42601), (42603, 42603), (42605, 42605), (42625, 42625),
     (42627, 42627), (42629, 42629), (42631, 42631), (42633, 42633), (42635, 42635),
     (42637, 42637), (42639, 42639), (42641, 42641), (42643, 42643), (42645, 42645),
     (42647, 42647), (42649, 42649), (42651, 42653), (42787, 42787), (42789, 42789),
     (42791, 42791), (42793, 42793), (42795, 42795), (42797, 42797), (42799, 42801),
     (42803, 42803), (42805, 42805), (42807, 42807), (42809, 42809), (42811, 42811),
     (42813, 42813), (42815, 42815), (42817, 42817), (42819, 42819), (42821, 42821),
     (42823, 42823), (42825, 42825), (42827, 42827), (42829, 42829), (42831, 42831),
     (42833, 42833), (42835, 42835), (42837, 42837), (42839, 42839), (42841, 42841),
     (42843, 42843), (42845, 42845), (42847, 42847), (42849, 42849), (42851, 42851),
     (42853, 42853), (42855, 42855), (42857, 42857), (42859, 42859), (42861, 42861),
     (42863, 42872), (42874, 42874), (42876, 42876), (42879, 42879), (42881, 42881),
     (42883, 42883), (42885, 42885), (42887, 42887), (42892, 42892), (42894, 42894),
     (42897, 42897), (42899, 42901), (42903, 42903), (42905, 42905), (42907, 42907),
     (42909, 42909), (42911, 42911), (42913, 42913), (42915, 42915), (42917, 42917),
     (42919, 42919), (42921, 42921), (42927, 42927), (42933, 42933), (42935, 42935),
     (42937, 42937), (42939, 42939), (42941, 42941), (42943, 42943), (42945, 42945),
     (42947, 42947), (42952, 42952), (42954, 42954), (42961, 42961), (42963, 42963),
     (42965, 42965), (42967, 42967), (42969, 42969), (42998, 42998), (43000, 43002),
     (43824, 43866), (43868, 43880), (43888, 43967), (64256, 64262), (64275, 64279),
     (65345, 65370), (66600, 66639), (66776, 66811), (66967, 66977), (66979, 66993),
     (66995, 67001), (67003, 67004), (67456, 67456), (67459, 67461), (67463, 67504),
     (67506, 67514), (68800, 68850), (71872, 71903), (93792, 93823), (119834, 119859),
     (119886, 119892), (119894, 119911), (119938, 119963), (119990, 119993), (119995, 119995),
     (119997, 120003), (120005, 120015), (120042, 120067), (120094, 120119), (120146, 120171),
     (120198, 120223), (120250, 120275), (120302, 120327), (120354, 120379), (120406, 120431),
     (120458, 120485), (120514, 120538), (120540, 120545), (120572, 120596), (120598, 120603),
     (120630, 120654), (120656, 120661), (120688, 120712), (120714, 120719), (120746, 120770),
     (120772, 120777), (120779, 120779), (122624, 122633), (122635, 122654), (125218, 125251)]"

definition titlecase_ranges :: "(nat \<times> nat) list" where
  "titlecase_ranges =
    [(453, 453), (456, 456), (459, 459), (498, 498), (8072, 8079), (8088, 8095), (8104, 8111),
     (8124, 8124), (8140, 8140), (8188, 8188)]"

definition isspace :: "codepoint \<Rightarrow> bool" where
  "isspace c = in_ranges c whitespace_ranges"

definition isdecimal :: "codepoint \<Rightarrow> bool" where
  "isdecimal c = in_ranges c decimal_ranges"

definition char_isupper :: "codepoint \<Rightarrow> bool" where
  "char_isupper c = in_ranges c uppercase_ranges"

definition char_islower :: "codepoint \<Rightarrow> bool" where
  "char_islower c = in_ranges c lowercase_ranges"

definition char_istitle :: "codepoint \<Rightarrow> bool" where
  "char_istitle c = in_ranges c titlecase_ranges"

subsection \<open>String methods used by the source\<close>

text \<open>\<^verbatim>\<open>s.strip()\<close>: leading and trailing whitespace removed.\<close>

definition strip :: "pystr \<Rightarrow> pystr" where
  "strip s = rev (dropWhile isspace (rev (dropWhile isspace s)))"

text \<open>\<^verbatim>\<open>text.split(sep)\<close> for a one-character separator: always at least one piece.\<close>

fun split_acc :: "codepoint \<Rightarrow> pystr \<Rightarrow> pystr \<Rightarrow> pystr list" where
  "split_acc sep acc [] = [rev acc]"
| "split_acc sep acc (c # cs) =
     (if c = sep then rev acc # split_acc sep [] cs else split_acc sep (c # acc) cs)"

definition split :: "codepoint \<Rightarrow> pystr \<Rightarrow> pystr list" where
  "split sep s = split_acc sep [] s"

text \<open>\<^verbatim>\<open>sub in s\<close>: \<^verbatim>\<open>sub\<close> occurs in \<^verbatim>\<open>s\<close> as a contiguous substring.\<close>

fun contains :: "pystr \<Rightarrow> pystr \<Rightarrow> bool" where
  "contains sub [] = (sub = [])"
| "contains sub (c # cs) = (take (length sub) (c # cs) = sub \<or> contains sub cs)"

text \<open>\<^verbatim>\<open>s.endswith(suffix)\<close>.\<close>

definition endswith :: "pystr \<Rightarrow> pystr \<Rightarrow> bool" where
  "endswith s suffix = (length suffix \<le> length s \<and> drop (length s - length suffix) s = suffix)"

text \<open>
  \<^verbatim>\<open>s.isupper()\<close>: no character is lower case or title case, and at least one is upper
  case.
\<close>

definition isupper :: "pystr \<Rightarrow> bool" where
  "isupper s = (\<not> list_ex (\<lambda>c. char_islower c \<or> char_istitle c) s \<and> list_ex char_isupper s)"

section \<open>Regular expressions\<close>

text \<open>
  The patterns of the source use: literal characters, character classes (with ranges,
  \<^verbatim>\<open>\s\<close>, \<^verbatim>\<open>\d\<close> and negation), the anchor \<^verbatim>\<open>^\<close>, greedy repetition of a single
  character or class (\<^verbatim>\<open>*\<close>, \<^verbatim>\<open>+\<close>, \<^verbatim>\<open>?\<close>, \<^verbatim>\<open>{2,}\<close>), one look-behind and one
  look-ahead on a single character, and a capturing group around a repetition (which
  does not change what is matched). A pattern is a sequence of such atoms.
\<close>

datatype citem = Ch codepoint | Rng codepoint codepoint | Space | Digit

datatype cclass = In "citem list" | NotIn "citem list"

datatype atom =
    Bol
  | One cclass
  | Rep cclass nat "nat option"
  | Behind cclass
  | Ahead cclass

type_synonym regex = "atom list"

fun item_mem :: "citem \<Rightarrow> codepoint \<Rightarrow> bool" where
  "item_mem (Ch a) c = (c = a)"
| "item_mem (Rng a b) c = (a \<le> c \<and> c \<le> b)"
| "item_mem Space c = isspace c"
| "item_mem Digit c = isdecimal c"

fun cls_mem :: "cclass \<Rightarrow> codepoint \<Rightarrow> bool" where
  "cls_mem (In items) c = list_ex (\<lambda>i. item_mem i c) items"
| "cls_mem (NotIn items) c = (\<not> list_ex (\<lambda>i. item_mem i c) items)"

text \<open>
  The matcher is the backtracking one of \<^verbatim>\<open>re\<close>: each atom gets the continuation that
  matches the rest of the pattern, the text before the current position (reversed) and
  the text from it on; the result is the text left after the first match found, in
  the engine's order of preference. A greedy repetition \<open>Rep c lo hi\<close> (at least \<open>lo\<close>,
  at most \<open>hi\<close> characters of class \<open>c\<close>) first tries to take one more character and
  only then to stop.
\<close>

type_synonym cont = "pystr \<Rightarrow> pystr \<Rightarrow> pystr option"

fun rep :: "cclass \<Rightarrow> nat \<Rightarrow> nat option \<Rightarrow> cont \<Rightarrow> pystr \<Rightarrow> pystr \<Rightarrow> pystr option" where
  "rep c lo hi k pre [] = (if lo = 0 then k pre [] else None)"
| "rep c lo hi k pre (x # xs) =
     (if cls_mem c x \<and> hi \<noteq> Some 0 then
        (case rep c (lo - 1) (map_option (\<lambda>h. h - 1) hi) k (x # pre) xs of
           Some r \<Rightarrow> Some r
         | None \<Rightarrow> if lo = 0 then k pre (x # xs) else None)
      else if lo = 0 then k pre (x # xs) else None)"

fun step :: "atom \<Rightarrow> cont \<Rightarrow> pystr \<Rightarrow> pystr \<Rightarrow> pystr option" where
  "step Bol k pre s = (if pre = [] then k pre s else None)"
| "step (One c) k pre s =
     (case s of [] \<Rightarrow> None | x # xs \<Rightarrow> if cls_mem c x then k (x # pre) xs else None)"
| "step (Rep c lo hi) k pre s = rep c lo hi k pre s"
| "step (Behind c) k pre s =
     (case pre of [] \<Rightarrow> None | p # _ \<Rightarrow> if cls_mem c p then k pre s else None)"
| "step (Ahead c) k pre s =
     (case s of [] \<Rightarrow> None | x # _ \<Rightarrow> if cls_mem c x then k pre s else None)"

primrec run :: "regex \<Rightarrow> pystr \<Rightarrow> pystr \<Rightarrow> pystr option" where
  "run [] = (\<lambda>pre s. Some s)"
| "run (a # as) = step a (run as)"

text \<open>\<^verbatim>\<open>re.match(pattern, s)\<close> as a truth value: a match starting at position 0.\<close>

definition re_match :: "regex \<Rightarrow> pystr \<Rightarrow> bool" where
  "re_match r s = (run r [] s \<noteq> None)"

text \<open>
  \<^verbatim>\<open>re.sub(pattern, '', s)\<close>: scanning from the left, every match is removed and the
  scan goes on after it; a character at which nothing matches is kept. With the empty
  replacement an empty match changes nothing, so it is treated as no match here (the
  one pattern the source substitutes never matches the empty string, see
  \<open>strip_marker_consumes\<close>).
\<close>

function sub_scan :: "regex \<Rightarrow> pystr \<Rightarrow> pystr \<Rightarrow> pystr" where
  "sub_scan r pre s =
     (case run r pre s of
        Some rest \<Rightarrow>
          if length rest < length s
          then sub_scan r (rev (take (length s - length rest) s) @ pre) rest
          else (case s of [] \<Rightarrow> [] | x # xs \<Rightarrow> x # sub_scan r (x # pre) xs)
      | None \<Rightarrow> (case s of [] \<Rightarrow> [] | x # xs \<Rightarrow> x # sub_scan r (x # pre) xs))"
  by pat_completeness auto
termination
  by (relation "measure (\<lambda>(r, pre, s). length s)") auto

definition re_sub_empty :: "regex \<Rightarrow> pystr \<Rightarrow> pystr" where
  "re_sub_empty r s = sub_scan r [] s"

subsection \<open>Writing patterns\<close>

definition lit :: "string \<Rightarrow> regex" where
  "lit s = map (\<lambda>c. One (In [Ch (of_char c)])) s"

definition chr :: "char \<Rightarrow> citem" where
  "chr c = Ch (of_char c)"

definition rng :: "char \<Rightarrow> char \<Rightarrow> citem" where
  "rng a b = Rng (of_char a) (of_char b)"

definition many0 :: "cclass \<Rightarrow> atom" where
  "many0 c = Rep c 0 None"

definition many1 :: "cclass \<Rightarrow> atom" where
  "many1 c = Rep c 1 None"

definition optional :: "cclass \<Rightarrow> atom" where
  "optional c = Rep c 0 (Some 1)"

definition at_least :: "nat \<Rightarrow> cclass \<Rightarrow> atom" where
  "at_least n c = Rep c n None"

section \<open>PDFTopicExtractor\<close>

subsection \<open>The pattern tables\<close>

text \<open>
  \<^verbatim>\<open>SUBJECT_PATTERNS\<close>, in the source's order:
  \<^verbatim>\<open>^Module\s+[IVX]+:?\s*\[\d+L\]\<close>, \<^verbatim>\<open>^Module\s+\d+:?\s*\[\d+L\]\<close>,
  \<^verbatim>\<open>^[A-Z][A-Za-z\s\-]+:\<close>, \<^verbatim>\<open>^[IVX]+\.\<close>, \<^verbatim>\<open>^\d+\.\s*[A-Z]\<close>.
\<close>

definition SUBJECT_PATTERNS :: "regex list" where
  "SUBJECT_PATTERNS =
    [ Bol # lit ''Module'' @ [many1 (In [Space]), many1 (In [chr CHR ''I'', chr CHR ''V'', chr CHR ''X'']),
        optional (In [chr CHR '':'']), many0 (In [Space])] @ lit ''['' @ [many1 (In [Digit])] @ lit ''L]'',
      Bol # lit ''Module'' @ [many1 (In [Space]), many1 (In [Digit]),
        optional (In [chr CHR '':'']), many0 (In [Space])] @ lit ''['' @ [many1 (In [Digit])] @ lit ''L]'',
      [Bol, One (In [rng CHR ''A'' CHR ''Z'']),
        many1 (In [rng CHR ''A'' CHR ''Z'', rng CHR ''a'' CHR ''z'', Space, chr CHR ''-''])] @ lit '':'',
      [Bol, many1 (In [chr CHR ''I'', chr CHR ''V'', chr CHR ''X''])] @ lit ''.'',
      [Bol, many1 (In [Digit])] @ lit ''.'' @ [many0 (In [Space]), One (In [rng CHR ''A'' CHR ''Z''])] ]"

text \<open>
  \<^verbatim>\<open>SUBTOPIC_PATTERNS\<close>, in the source's order: \<^verbatim>\<open>^\s*[-*]\s\<close> with the three bullet
  glyphs U+2022, U+25CF and U+203B also in the class, \<^verbatim>\<open>^\s*[a-z]\)\s\<close>,
  \<^verbatim>\<open>^\s*\d+\.\d*\s\<close>, \<^verbatim>\<open>^\s{2,}[A-Z][^:]+:\<close>, \<^verbatim>\<open>^\s{2,}[A-Z]\<close>,
  \<^verbatim>\<open>(?<=:)([^,.]+)(?=[,.])\<close>.
\<close>

definition bullets :: "citem list" where
  "bullets = [chr CHR ''-'', Ch 8226, Ch 9679, Ch 8251, chr CHR ''*'']"

definition SUBTOPIC_PATTERNS :: "regex list" where
  "SUBTOPIC_PATTERNS =
    [ [Bol, many0 (In [Space]), One (In bullets), One (In [Space])],
      [Bol, many0 (In [Space]), One (In [rng CHR ''a'' CHR ''z''])] @ lit '')'' @ [One (In [Space])],
      [Bol, many0 (In [Space]), many1 (In [Digit])] @ lit ''.'' @ [many0 (In [Digit]), One (In [Space])],
      [Bol, at_least 2 (In [Space]), One (In [rng CHR ''A'' CHR ''Z'']),
        many1 (NotIn [chr CHR '':''])] @ lit '':'',
      [Bol, at_least 2 (In [Space]), One (In [rng CHR ''A'' CHR ''Z''])],
      [Behind (In [chr CHR '':'']), many1 (NotIn [chr CHR '','', chr CHR ''.'']),
        Ahead (In [chr CHR '','', chr CHR ''.''])] ]"

text \<open>
  The pattern of the stripping step, \<^verbatim>\<open>^\s*[-*\d.]\s*\<close> with the three bullet glyphs
  also in the class: one character of the class, with the whitespace around it.
\<close>

definition STRIP_PATTERN :: regex where
  "STRIP_PATTERN =
    [Bol, many0 (In [Space]), One (In (bullets @ [Digit, chr CHR ''.''])), many0 (In [Space])]"

subsection \<open>Dictionaries\<close>

text \<open>
  A Python \<^verbatim>\<open>dict\<close> keeps its keys in insertion order, and assigning to a key that is
  present keeps the key's place: an association list with distinct keys.
\<close>

type_synonym ('k, 'v) dict = "('k \<times> 'v) list"

fun dict_set :: "'k \<Rightarrow> 'v \<Rightarrow> ('k, 'v) dict \<Rightarrow> ('k, 'v) dict" where
  "dict_set k v [] = [(k, v)]"
| "dict_set k v ((k', v') # d) =
     (if k' = k then (k, v) # d else (k', v') # dict_set k v d)"

definition keys :: "('k, 'v) dict \<Rightarrow> 'k list" where
  "keys d = map fst d"

text \<open>\<^verbatim>\<open>d[k].append(x)\<close>; \<open>None\<close> is the \<^verbatim>\<open>KeyError\<close> of a missing key.\<close>

definition dict_append :: "'k \<Rightarrow> 'a \<Rightarrow> ('k, 'a list) dict \<Rightarrow> ('k, 'a list) dict option" where
  "dict_append k x d =
     (case map_of d k of None \<Rightarrow> None | Some v \<Rightarrow> Some (dict_set k (v @ [x]) d))"

type_synonym topicmap = "(pystr, pystr list) dict"

subsection \<open>The primary pass (the loop of \<^verbatim>\<open>extract_topics_from_pdf\<close>)\<close>

text \<open>
  The loop's state is \<^verbatim>\<open>topics\<close> and \<^verbatim>\<open>current_subject\<close>; one iteration is
  \<open>primary_line\<close>. \<open>None\<close> stands for an exception raised in the body.
\<close>

definition is_subject :: "pystr \<Rightarrow> bool" where
  "is_subject clean_line = list_ex (\<lambda>pattern. re_match pattern clean_line) SUBJECT_PATTERNS"

definition is_subtopic :: "pystr \<Rightarrow> bool" where
  "is_subtopic line = list_ex (\<lambda>pattern. re_match pattern line) SUBTOPIC_PATTERNS"

definition primary_line ::
  "pystr \<Rightarrow> topicmap \<times> pystr option \<Rightarrow> (topicmap \<times> pystr option) option" where
  "primary_line line st =
     (case st of (topics, current_subject) \<Rightarrow>
        let clean_line = strip line in
        if clean_line = [] then Some (topics, current_subject)
        else if is_subject clean_line then Some (dict_set clean_line [] topics, Some clean_line)
        else
          (case current_subject of
             None \<Rightarrow> Some (topics, current_subject)
           | Some subject \<Rightarrow>
               if is_subtopic line \<or> contains (str ''  '') line then
                 (let subtopic = re_sub_empty STRIP_PATTERN clean_line in
                  if subtopic \<noteq> [] \<and> length (strip subtopic) > 0 then
                    map_option (\<lambda>t. (t, current_subject)) (dict_append subject (strip subtopic) topics)
                  else Some (topics, current_subject))
               else Some (topics, current_subject)))"

fun primary_loop ::
  "pystr list \<Rightarrow> topicmap \<times> pystr option \<Rightarrow> (topicmap \<times> pystr option) option" where
  "primary_loop [] st = Some st"
| "primary_loop (line # lines) st =
     (case primary_line line st of None \<Rightarrow> None | Some st' \<Rightarrow> primary_loop lines st')"

subsection \<open>\<^verbatim>\<open>_clean_and_validate_topics\<close>\<close>

text \<open>
  What the extractor logs and shows, as far as the tiers and the failures go: the debug
  line that opens the alternative parsing, the warning (log line and dialog) that
  opens the default section, and the error reports.
\<close>

datatype event =
    DebugAlternativeParsing
  | WarningNoTopics
  | ErrorPageText nat
  | ErrorReadPDF
  | ErrorOpenFile
  | ErrorNoTopicsExtracted
  | DebugProgressLoaded
  | ErrorLoadProgress
  | InfoProgressSaved
  | ErrorSaveProgress
  | InfoProgressReport "pystr list" "pystr list"
  | InfoNoTopicsAvailable

text \<open>\<^verbatim>\<open>{k: v for k, v in topics.items() if v}\<close>\<close>

definition remove_empty :: "topicmap \<Rightarrow> topicmap" where
  "remove_empty topics = filter (\<lambda>(k, v). v \<noteq> []) topics"

text \<open>The pattern of the alternative parsing, \<^verbatim>\<open>^\d+\.?\s+[A-Z]\<close>.\<close>

definition NUMBERED_PATTERN :: regex where
  "NUMBERED_PATTERN =
    [Bol, many1 (In [Digit]), optional (In [chr CHR ''.'']), many1 (In [Space]),
     One (In [rng CHR ''A'' CHR ''Z''])]"

definition alternative_line ::
  "pystr \<Rightarrow> topicmap \<times> pystr option \<Rightarrow> (topicmap \<times> pystr option) option" where
  "alternative_line line st =
     (case st of (topics, current_subject) \<Rightarrow>
        let clean_line = strip line in
        if clean_line = [] then Some (topics, current_subject)
        else if length clean_line > 3 \<and>
                (isupper clean_line \<or> endswith clean_line (str '':'') \<or>
                 re_match NUMBERED_PATTERN clean_line)
        then Some (dict_set clean_line [] topics, Some clean_line)
        else
          (case current_subject of
             None \<Rightarrow> Some (topics, current_subject)
           | Some subject \<Rightarrow>
               if subject \<noteq> [] \<and> clean_line \<noteq> [] then
                 map_option (\<lambda>t. (t, current_subject)) (dict_append subject clean_line topics)
               else Some (topics, current_subject)))"

fun alternative_loop ::
  "pystr list \<Rightarrow> topicmap \<times> pystr option \<Rightarrow> (topicmap \<times> pystr option) option" where
  "alternative_loop [] st = Some st"
| "alternative_loop (line # lines) st =
     (case alternative_line line st of None \<Rightarrow> None | Some st' \<Rightarrow> alternative_loop lines st')"

text \<open>\<^verbatim>\<open>[line.strip() for line in lines if line.strip()][:10]\<close>\<close>

definition detected_content :: "pystr list \<Rightarrow> pystr list" where
  "detected_content lines = take 10 (map strip (filter (\<lambda>line. strip line \<noteq> []) lines))"

definition clean_and_validate_topics ::
  "topicmap \<Rightarrow> pystr list \<Rightarrow> (topicmap \<times> event list) option" where
  "clean_and_validate_topics topics0 lines =
     (let topics = remove_empty topics0 in
      case (if topics = []
            then map_option (\<lambda>st. (fst st, [DebugAlternativeParsing]))
                   (alternative_loop lines (topics, None))
            else Some (topics, []))
      of None \<Rightarrow> None
       | Some (topics, events) \<Rightarrow>
           if topics = []
           then Some (dict_set (str ''Detected Content'') (detected_content lines) topics,
                      events @ [WarningNoTopics])
           else Some (topics, events))"

subsection \<open>\<^verbatim>\<open>extract_topics_from_pdf\<close>\<close>

text \<open>
  The part of the function after \<^verbatim>\<open>lines = text.split('\n')\<close>: the primary pass from
  the empty map and no current subject, then the cleaning with its fall-backs.
\<close>

definition extract_from_lines :: "pystr list \<Rightarrow> (topicmap \<times> event list) option" where
  "extract_from_lines lines =
     (case primary_loop lines ([], None) of
        None \<Rightarrow> None
      | Some (topics, current_subject) \<Rightarrow> clean_and_validate_topics topics lines)"

text \<open>
  The document as the PDF library delivers it: the file cannot be opened, the reader
  fails on it, or it has pages, each with its text or failing to give one
  (\<open>None\<close>, which the source logs and skips).
\<close>

datatype pdf = OpenFails | ReaderFails | Pages "pystr option list"

fun pages_text :: "pystr option list \<Rightarrow> pystr" where
  "pages_text [] = []"
| "pages_text (None # pages) = pages_text pages"
| "pages_text (Some page_text # pages) = page_text @ pages_text pages"

fun page_errors :: "nat \<Rightarrow> pystr option list \<Rightarrow> event list" where
  "page_errors page_num [] = []"
| "page_errors page_num (None # pages) = ErrorPageText (page_num + 1) # page_errors (page_num + 1) pages"
| "page_errors page_num (Some page_text # pages) = page_errors (page_num + 1) pages"

definition extract_topics_from_pdf :: "pdf \<Rightarrow> topicmap \<times> event list" where
  "extract_topics_from_pdf document =
     (case document of
        OpenFails \<Rightarrow> ([(str ''Error'', [str ''Failed to open file''])], [ErrorOpenFile])
      | ReaderFails \<Rightarrow> ([(str ''Error'', [str ''Failed to read PDF''])], [ErrorReadPDF])
      | Pages pages \<Rightarrow>
          (let lines = split 10 (pages_text pages) in
           case extract_from_lines lines of
             None \<Rightarrow>
               ([(str ''Error'', [str ''Failed to read PDF''])], page_errors 0 pages @ [ErrorReadPDF])
           | Some (topics, events) \<Rightarrow> (topics, page_errors 0 pages @ events)))"

section \<open>StudyTracker\<close>

text \<open>
  The tracker's state: the topics of the loaded document and the registry
  \<^verbatim>\<open>checkbox_vars\<close>, which maps a subtopic's text to its \<^verbatim>\<open>BooleanVar\<close> (here: to the
  variable's value). \<open>init\<close> is the state \<^verbatim>\<open>__init__\<close> leaves.
\<close>

record tracker =
  topics :: topicmap
  checkbox_vars :: "(pystr, bool) dict"

definition init :: tracker where
  "init = \<lparr>topics = [], checkbox_vars = []\<rparr>"

subsection \<open>The progress file\<close>

text \<open>
  \<^verbatim>\<open>json.dump(progress, f)\<close> with the default settings writes
  \<^verbatim>\<open>{"key": true, "key2": false}\<close>; in a key, the quote, the backslash and everything
  outside printable ASCII are escaped (\<^verbatim>\<open>ensure_ascii\<close>), a code point above U+FFFF as a
  surrogate pair. The quote is code point 34 and the backslash 92.
\<close>

definition hex_digit :: "nat \<Rightarrow> codepoint" where
  "hex_digit d = (if d < 10 then 48 + d else 87 + d)"

definition u_escape :: "nat \<Rightarrow> pystr" where
  "u_escape n =
     [92, 117, hex_digit (n div 4096 mod 16), hex_digit (n div 256 mod 16),
                    hex_digit (n div 16 mod 16), hex_digit (n mod 16)]"

definition escape_char :: "codepoint \<Rightarrow> pystr" where
  "escape_char c =
     (if c = 34 then [92, 34]
      else if c = 92 then [92, 92]
      else if c = 10 then 92 # str ''n''
      else if c = 13 then 92 # str ''r''
      else if c = 9 then 92 # str ''t''
      else if c = 12 then 92 # str ''f''
      else if c = 8 then 92 # str ''b''
      else if 32 \<le> c \<and> c \<le> 126 then [c]
      else if c < 65536 then u_escape c
      else u_escape (55296 + (c - 65536) div 1024 mod 1024) @
           u_escape (56320 + (c - 65536) mod 1024))"

definition json_string :: "pystr \<Rightarrow> pystr" where
  "json_string s = [34] @ concat (map escape_char s) @ [34]"

definition json_item :: "pystr \<times> bool \<Rightarrow> pystr" where
  "json_item kv = json_string (fst kv) @ str '': '' @ (if snd kv then str ''true'' else str ''false'')"

fun join :: "pystr \<Rightarrow> pystr list \<Rightarrow> pystr" where
  "join sep [] = []"
| "join sep [x] = x"
| "join sep (x # y # xs) = x @ sep @ join sep (y # xs)"

definition json_dumps :: "(pystr, bool) dict \<Rightarrow> pystr" where
  "json_dumps d = str ''{'' @ join (str '', '') (map json_item d) @ str ''}''"

text \<open>
  The file \<^verbatim>\<open>progress.json\<close>: absent (\<open>None\<close>) or holding some text. What the system
  does with one save: \<^verbatim>\<open>open(..., 'w')\<close> fails (the file is not touched), or it
  succeeds, which creates or truncates the file, and then either everything is written
  or an error stops the writing after some number of characters.
\<close>

type_synonym progress_file = "pystr option"

datatype write_outcome = OpenForWriteFails | WriteFailsAfter nat | WriteSucceeds

text \<open>\<^verbatim>\<open>{key: var.get() for key, var in self.checkbox_vars.items()}\<close>\<close>

definition progress_record :: "tracker \<Rightarrow> (pystr, bool) dict" where
  "progress_record st = map (\<lambda>(key, var). (key, var)) (checkbox_vars st)"

definition save_progress :: "tracker \<Rightarrow> write_outcome \<Rightarrow> progress_file \<Rightarrow> progress_file \<times> event list" where
  "save_progress st outcome f =
     (let progress = progress_record st in
      case outcome of
        OpenForWriteFails \<Rightarrow> (f, [ErrorSaveProgress])
      | WriteFailsAfter n \<Rightarrow> (Some (take n (json_dumps progress)), [ErrorSaveProgress])
      | WriteSucceeds \<Rightarrow> (Some (json_dumps progress), [InfoProgressSaved]))"

text \<open>
  What \<^verbatim>\<open>load_progress\<close> finds: no file, a file that cannot be read as a JSON object, or
  an object. A value of the object is one that \<^verbatim>\<open>BooleanVar.set\<close> takes as a truth
  value, or one on which it raises.
\<close>

datatype jvalue = AsBool bool | Invalid

datatype stored = NoFile | Unreadable | Parsed "(pystr \<times> jvalue) list"

text \<open>
  The loop over \<^verbatim>\<open>progress.items()\<close>; the truth value returned says whether it ran to
  its end (\<open>False\<close>: an exception left it, with the variables set so far).
\<close>

fun apply_progress :: "(pystr \<times> jvalue) list \<Rightarrow> (pystr, bool) dict \<Rightarrow> (pystr, bool) dict \<times> bool" where
  "apply_progress [] vars = (vars, True)"
| "apply_progress ((topic, is_completed) # progress) vars =
     (if topic \<in> set (keys vars) then
        (case is_completed of
           AsBool b \<Rightarrow> apply_progress progress (dict_set topic b vars)
         | Invalid \<Rightarrow> (vars, False))
      else apply_progress progress vars)"

definition load_progress :: "tracker \<Rightarrow> stored \<Rightarrow> tracker \<times> event list" where
  "load_progress st disk =
     (case disk of
        NoFile \<Rightarrow> (st, [])
      | Unreadable \<Rightarrow> (st, [ErrorLoadProgress])
      | Parsed progress \<Rightarrow>
          (case apply_progress progress (checkbox_vars st) of
             (vars, completed) \<Rightarrow>
               (st\<lparr>checkbox_vars := vars\<rparr>,
                if completed then [DebugProgressLoaded] else [ErrorLoadProgress])))"

subsection \<open>Building the check boxes\<close>

text \<open>
  \<^verbatim>\<open>_create_subject_frame\<close>: every item gets a new \<^verbatim>\<open>BooleanVar\<close> (false), stored
  under the item's text. \<^verbatim>\<open>refresh_ui\<close> does so for every subject of the topics, in
  order, and then loads the progress; the widgets it destroys are not part of the state.
\<close>

fun create_subject_frame :: "pystr list \<Rightarrow> (pystr, bool) dict \<Rightarrow> (pystr, bool) dict" where
  "create_subject_frame [] vars = vars"
| "create_subject_frame (item # items) vars = create_subject_frame items (dict_set item False vars)"

fun create_frames :: "topicmap \<Rightarrow> (pystr, bool) dict \<Rightarrow> (pystr, bool) dict" where
  "create_frames [] vars = vars"
| "create_frames ((subject, items) # rest) vars = create_frames rest (create_subject_frame items vars)"

definition refresh_ui :: "tracker \<Rightarrow> stored \<Rightarrow> tracker \<times> event list" where
  "refresh_ui st disk =
     load_progress (st\<lparr>checkbox_vars := create_frames (topics st) (checkbox_vars st)\<rparr>) disk"

text \<open>
  \<^verbatim>\<open>load_pdf\<close>: the file dialog gives no path (\<open>None\<close>) or the path of a document.
\<close>

definition load_pdf :: "tracker \<Rightarrow> pdf option \<Rightarrow> stored \<Rightarrow> tracker \<times> event list" where
  "load_pdf st choice disk =
     (case choice of
        None \<Rightarrow> (st, [])
      | Some document \<Rightarrow>
          (case extract_topics_from_pdf document of
             (extracted, events) \<Rightarrow>
               if extracted \<noteq> [] then
                 (case refresh_ui (st\<lparr>topics := extracted\<rparr>) disk of
                    (st', events') \<Rightarrow> (st', events @ events'))
               else (st\<lparr>topics := extracted\<rparr>, events @ [ErrorNoTopicsExtracted])))"

text \<open>
  \<^verbatim>\<open>check_progress\<close>: the report (the completed and the incomplete keys; the
  percentage shown with them is computed from their numbers), then \<^verbatim>\<open>save_progress\<close>.
\<close>

definition check_progress :: "tracker \<Rightarrow> write_outcome \<Rightarrow> progress_file \<Rightarrow> progress_file \<times> event list" where
  "check_progress st outcome f =
     (let completed = map fst (filter (\<lambda>(key, var). var) (checkbox_vars st));
          incomplete = map fst (filter (\<lambda>(key, var). \<not> var) (checkbox_vars st));
          total = length completed + length incomplete;
          report = (if total > 0 then InfoProgressReport completed incomplete
                    else InfoNoTopicsAvailable)
      in case save_progress st outcome f of (f', events) \<Rightarrow> (f', report # events))"

section \<open>The scenarios and the vocabulary of the specification\<close>

text \<open>The line sequence of the specification's first scenario.\<close>

definition scenario_lines :: "pystr list" where
  "scenario_lines =
     [str ''Module I: [10L]'', str ''- Introduction to Testing'', str ''- Unit Tests'',
      str ''Module II: [8L]'', str ''a) Integration'']"





text \<open>The subtopics of all subjects of a map, in order: its flattened subtopic list.\<close>

definition flatten :: "topicmap \<Rightarrow> pystr list" where
  "flatten m = concat (map snd m)"

section \<open>The matcher and the substitution\<close>

declare sub_scan.simps [simp del]

text \<open>
  A pattern that starts with \<^verbatim>\<open>^\<close> matches at position 0 only, so the substitution
  removes at most the match found there.
\<close>

lemma sub_scan_Bol_after_start: "pre \<noteq> [] \<Longrightarrow> sub_scan (Bol # r) pre s = s"
proof (induction s arbitrary: pre)
  case Nil
  then show ?case by (subst sub_scan.simps) simp
next
  case (Cons x xs)
  have "sub_scan (Bol # r) (x # pre) xs = xs" by (rule Cons.IH) simp
  with Cons.prems show ?case by (subst sub_scan.simps) simp
qed

lemma re_sub_empty_Bol:
  "re_sub_empty (Bol # r) s =
     (case run (Bol # r) [] s of
        Some rest \<Rightarrow> if length rest < length s then rest else s
      | None \<Rightarrow> s)"
proof (cases "run (Bol # r) [] s")
  case None
  then show ?thesis unfolding re_sub_empty_def
    by (subst sub_scan.simps) (simp add: sub_scan_Bol_after_start split: list.splits)
next
  case (Some rest)
  show ?thesis
  proof (cases "length rest < length s")
    case True
    then have "rev (take (length s - length rest) s) @ [] \<noteq> []" by (cases s) auto
    then show ?thesis unfolding re_sub_empty_def using Some True
      by (subst sub_scan.simps) (simp add: sub_scan_Bol_after_start)
  next
    case False
    then show ?thesis unfolding re_sub_empty_def using Some
      by (subst sub_scan.simps) (simp add: sub_scan_Bol_after_start split: list.splits)
  qed
qed

text \<open>The equations that evaluate the extractor on a given text.\<close>

lemmas pattern_defs =
  SUBJECT_PATTERNS_def SUBTOPIC_PATTERNS_def STRIP_PATTERN_def NUMBERED_PATTERN_def
  lit_def chr_def rng_def many0_def many1_def optional_def at_least_def bullets_def

lemmas table_defs =
  isspace_def whitespace_ranges_def isdecimal_def decimal_ranges_def
  char_isupper_def char_islower_def char_istitle_def
  uppercase_ranges_def lowercase_ranges_def titlecase_ranges_def

lemmas extract_defs =
  str_def is_subject_def is_subtopic_def re_match_def strip_def isupper_def endswith_def
  primary_line_def alternative_line_def dict_append_def detected_content_def remove_empty_def
  clean_and_validate_topics_def extract_from_lines_def Let_def re_sub_empty_Bol

section \<open>Scenario 1\<close>

text \<open>
  C1, as the specification states it: on the lines of scenario 1 the pipeline would
  return "Module I: [10L]" with "Introduction to Testing" and "Unit Tests", and
  "Module II: [8L]" with "Integration". It does not: the map it returns differs from
  that one.
\<close>

theorem scenario_1_not_as_specified:
  "map_option fst (extract_from_lines scenario_lines) \<noteq>
     Some [(str ''Module I: [10L]'', [str ''Introduction to Testing'', str ''Unit Tests'']),
           (str ''Module II: [8L]'', [str ''Integration''])]"
  by (simp add: scenario_lines_def pattern_defs table_defs extract_defs)

text \<open>
  C1, amended: on the lines of scenario 1 the primary pass followed by the cleaning
  returns, in this order, "Module I: [10L]" with the subtopics "Introduction to
  Testing" and "Unit Tests", and "Module II: [8L]" with the subtopic "a) Integration":
  the stripping step removes a leading bullet, not a lettered marker. No fall-back
  runs (no event is emitted).
\<close>

theorem scenario_1_result:
  "extract_from_lines scenario_lines =
     Some ([(str ''Module I: [10L]'', [str ''Introduction to Testing'', str ''Unit Tests'']),
            (str ''Module II: [8L]'', [str ''a) Integration''])], [])"
  by (simp add: scenario_lines_def pattern_defs table_defs extract_defs)

section \<open>Dictionaries\<close>

lemma dict_set_not_Nil: "dict_set k v d \<noteq> []"
  by (cases d) (auto split: if_splits)

lemma keys_dict_set: "set (keys (dict_set k v d)) = insert k (set (keys d))"
  by (induction k v d rule: dict_set.induct) (auto simp: keys_def)

lemma keys_dict_set_extends: "\<exists>new. keys (dict_set k v d) = keys d @ new"
  by (induction k v d rule: dict_set.induct) (auto simp: keys_def)


lemma dict_append_present:
  assumes "k \<in> set (keys d)"
  shows "\<exists>d'. dict_append k x d = Some d' \<and> set (keys d') = set (keys d)"
proof -
  from assms have "map_of d k \<noteq> None"
    by (simp add: keys_def map_of_eq_None_iff)
  then obtain v where "map_of d k = Some v" by blast
  with assms show ?thesis by (auto simp: dict_append_def keys_dict_set)
qed

section \<open>The loops raise no exception\<close>

text \<open>The loop invariant: the current subject, when there is one, is a key of the map.\<close>

lemma primary_line_total:
  assumes "\<forall>c. cur = Some c \<longrightarrow> c \<in> set (keys m)"
  shows "\<exists>m' cur'. primary_line line (m, cur) = Some (m', cur') \<and>
           (\<forall>c. cur' = Some c \<longrightarrow> c \<in> set (keys m'))"
proof (cases cur)
  case None
  then show ?thesis by (simp add: primary_line_def Let_def keys_dict_set)
next
  case (Some c)
  with assms have c: "c \<in> set (keys m)" by simp
  obtain d' where
    "dict_append c (strip (re_sub_empty STRIP_PATTERN (strip line))) m = Some d'"
    "set (keys d') = set (keys m)"
    using dict_append_present [OF c] by blast
  with Some c show ?thesis by (auto simp: primary_line_def Let_def keys_dict_set)
qed

lemma primary_loop_total:
  "\<forall>c. cur = Some c \<longrightarrow> c \<in> set (keys m) \<Longrightarrow>
     \<exists>m' cur'. primary_loop lines (m, cur) = Some (m', cur')"
proof (induction lines arbitrary: m cur)
  case Nil
  then show ?case by simp
next
  case (Cons line lines)
  from primary_line_total [OF Cons.prems, of line] obtain t' c' where
    step: "primary_line line (m, cur) = Some (t', c')" and
    inv: "\<forall>c. c' = Some c \<longrightarrow> c \<in> set (keys t')" by blast
  from Cons.IH [OF inv] step show ?case by simp
qed

lemma alternative_line_total:
  assumes "\<forall>c. cur = Some c \<longrightarrow> c \<in> set (keys m)"
  shows "\<exists>m' cur'. alternative_line line (m, cur) = Some (m', cur') \<and>
           (\<forall>c. cur' = Some c \<longrightarrow> c \<in> set (keys m'))"
proof (cases cur)
  case None
  then show ?thesis by (simp add: alternative_line_def Let_def keys_dict_set)
next
  case (Some c)
  with assms have c: "c \<in> set (keys m)" by simp
  obtain d' where
    "dict_append c (strip line) m = Some d'" "set (keys d') = set (keys m)"
    using dict_append_present [OF c] by blast
  with Some c show ?thesis by (auto simp: alternative_line_def Let_def keys_dict_set)
qed

lemma alternative_loop_total:
  "\<forall>c. cur = Some c \<longrightarrow> c \<in> set (keys m) \<Longrightarrow>
     \<exists>m' cur'. alternative_loop lines (m, cur) = Some (m', cur')"
proof (induction lines arbitrary: m cur)
  case Nil
  then show ?case by simp
next
  case (Cons line lines)
  from alternative_line_total [OF Cons.prems, of line] obtain t' c' where
    step: "alternative_line line (m, cur) = Some (t', c')" and
    inv: "\<forall>c. c' = Some c \<longrightarrow> c \<in> set (keys t')" by blast
  from Cons.IH [OF inv] step show ?case by simp
qed

lemma clean_and_validate_topics_result:
  "\<exists>m events. clean_and_validate_topics m0 lines = Some (m, events) \<and> m \<noteq> []"
proof -
  obtain t2 c2 where alt: "alternative_loop lines ([], None) = Some (t2, c2)"
    using alternative_loop_total [of None "[]" lines] by auto
  show ?thesis
  proof (cases "remove_empty m0 = []")
    case True
    then show ?thesis
      by (cases "t2 = []") (simp_all add: clean_and_validate_topics_def alt dict_set_not_Nil)
  next
    case False
    then show ?thesis by (simp add: clean_and_validate_topics_def)
  qed
qed

lemma extract_from_lines_result:
  "\<exists>m events. extract_from_lines lines = Some (m, events) \<and> m \<noteq> []"
proof -
  obtain t c where "primary_loop lines ([], None) = Some (t, c)"
    using primary_loop_total [of None "[]" lines] by auto
  then show ?thesis
    using clean_and_validate_topics_result [of t lines] by (simp add: extract_from_lines_def)
qed

section \<open>The fall-back tiers\<close>

text \<open>
  C3, as the specification states it: the default section (tier 3) would run whenever
  the map of the alternative parsing (tier 2) is empty once its subjects with no
  subtopics are removed. For the single line "HEADING:" the primary pass keeps nothing,
  the alternative parsing yields the one subject "HEADING:" with no subtopic, which
  such a removal would empty, and yet the function returns that map with the debug
  line of tier 2 only: tier 3 does not run.
\<close>

theorem tier_3_not_gated_on_cleaned_map:
  "alternative_loop [str ''HEADING:''] ([], None) =
     Some ([(str ''HEADING:'', [])], Some (str ''HEADING:'')) \<and>
   remove_empty [(str ''HEADING:'', [])] = [] \<and>
   extract_from_lines [str ''HEADING:''] =
     Some ([(str ''HEADING:'', [])], [DebugAlternativeParsing])"
  by (simp add: pattern_defs table_defs extract_defs)

text \<open>
  C3, amended: \<^verbatim>\<open>_clean_and_validate_topics\<close> always returns. Tier 2 (the alternative
  parsing, marked by its debug line) runs if and only if the map it is given is empty
  once the subjects with no subtopics are removed. Tier 3 (the "Detected Content"
  section, marked by its warning) runs if and only if tier 2 ran and the map tier 2
  built has no subject at all: subjects with no subtopics are not removed a second time.
  The map returned is the cleaned map of tier 1 when that is not empty; otherwise the
  map tier 2 built, as it is, when it has a subject; otherwise the one subject
  "Detected Content" with the first ten lines that have text.
\<close>

theorem escalation_gating:
  "\<exists>m events t2 cur.
     clean_and_validate_topics m0 lines = Some (m, events) \<and>
     alternative_loop lines ([], None) = Some (t2, cur) \<and>
     (DebugAlternativeParsing \<in> set events \<longleftrightarrow> remove_empty m0 = []) \<and>
     (WarningNoTopics \<in> set events \<longleftrightarrow>
        remove_empty m0 = [] \<and> (\<exists>cur. alternative_loop lines ([], None) = Some ([], cur))) \<and>
     (m, events) =
       (if remove_empty m0 \<noteq> [] then (remove_empty m0, [])
        else if t2 \<noteq> [] then (t2, [DebugAlternativeParsing])
        else ([(str ''Detected Content'', detected_content lines)],
              [DebugAlternativeParsing, WarningNoTopics]))"
proof -
  obtain t2 c2 where alt: "alternative_loop lines ([], None) = Some (t2, c2)"
    using alternative_loop_total [of None "[]" lines] by auto
  show ?thesis
  proof (cases "remove_empty m0 = []")
    case True
    then show ?thesis
      by (cases "t2 = []") (simp_all add: clean_and_validate_topics_def alt)
  next
    case False
    then show ?thesis by (simp add: clean_and_validate_topics_def alt)
  qed
qed

text \<open>
  C4: for every line sequence with at least one line that is not blank, the extraction
  returns (no exception is raised in it) and the map it returns has at least one
  subject.
\<close>

theorem extraction_never_empty:
  assumes "\<exists>line\<in>set lines. strip line \<noteq> []"
  shows "\<exists>m events. extract_from_lines lines = Some (m, events) \<and> m \<noteq> []"
  using extract_from_lines_result [of lines] .

theorem extraction_never_empty_witness:
  "\<exists>m events. extract_from_lines [str '' '', str ''plain text''] = Some (m, events) \<and> m \<noteq> []"
proof -
  have "\<exists>line\<in>set [str '' '', str ''plain text'']. strip line \<noteq> []"
    by (simp add: str_def strip_def table_defs)
  then show ?thesis by (rule extraction_never_empty)
qed

section \<open>A document with no text\<close>

lemma primary_line_blank: "strip line = [] \<Longrightarrow> primary_line line st = Some st"
  by (cases st) (simp add: primary_line_def)

lemma primary_loop_blank:
  "\<forall>line\<in>set lines. strip line = [] \<Longrightarrow> primary_loop lines st = Some st"
  by (induction lines) (simp_all add: primary_line_blank)

lemma alternative_line_blank: "strip line = [] \<Longrightarrow> alternative_line line st = Some st"
  by (cases st) (simp add: alternative_line_def)

lemma alternative_loop_blank:
  "\<forall>line\<in>set lines. strip line = [] \<Longrightarrow> alternative_loop lines st = Some st"
  by (induction lines) (simp_all add: alternative_line_blank)

lemma detected_content_blank:
  "\<forall>line\<in>set lines. strip line = [] \<Longrightarrow> detected_content lines = []"
  by (simp add: detected_content_def filter_empty_conv)

lemma blank_lines_result:
  assumes "\<forall>line\<in>set lines. strip line = []"
  shows "extract_from_lines lines =
           Some ([(str ''Detected Content'', [])], [DebugAlternativeParsing, WarningNoTopics])"
  using assms
  by (simp add: extract_from_lines_def clean_and_validate_topics_def remove_empty_def
      primary_loop_blank alternative_loop_blank detected_content_blank)

text \<open>
  C5, as the specification states it: a document that opens and has no line with text
  would give the empty map, with no "Detected Content" key. For the document with no
  page the map returned is not empty and has that key.
\<close>

theorem no_text_map_not_empty:
  "fst (extract_topics_from_pdf (Pages [])) \<noteq> [] \<and>
   str ''Detected Content'' \<in> set (keys (fst (extract_topics_from_pdf (Pages []))))"
  by (simp add: extract_topics_from_pdf_def split_def keys_def blank_lines_result strip_def)

text \<open>
  C5, amended: when the document opens and none of its lines has text, the extraction
  raises nothing, runs both fall-backs, emits the warning, and returns the map with
  the single subject "Detected Content" and no subtopic: not the empty map and not
  the "Error" map. The only other events are those of the pages that gave no text.
\<close>

theorem no_text_result:
  assumes "\<forall>line\<in>set (split 10 (pages_text pages)). strip line = []"
  shows "extract_topics_from_pdf (Pages pages) =
           ([(str ''Detected Content'', [])],
            page_errors 0 pages @ [DebugAlternativeParsing, WarningNoTopics])"
  using assms by (simp add: extract_topics_from_pdf_def blank_lines_result)

theorem no_text_result_witness:
  "extract_topics_from_pdf (Pages [Some (str ''  ''), None, Some [32, 10, 9]]) =
     ([(str ''Detected Content'', [])],
      [ErrorPageText 2, DebugAlternativeParsing, WarningNoTopics])"
proof -
  have "\<forall>line\<in>set (split 10 (pages_text [Some (str ''  ''), None, Some [32, 10, 9]])).
          strip line = []"
    by (simp add: str_def split_def strip_def table_defs)
  from no_text_result [OF this] show ?thesis by simp
qed

section \<open>The pattern for text between a colon and a comma or period\<close>

text \<open>
  \<^verbatim>\<open>re.match\<close> tries a pattern at position 0 only, and there the look-behind
  \<^verbatim>\<open>(?<=:)\<close> has no character to look at: the last of the subtopic patterns matches
  no line.
\<close>

lemma look_behind_never_matches: "\<not> re_match (Behind c # r) line"
  by (simp add: re_match_def)

text \<open>
  C6: a line with text between a colon and the next comma, under a current subject,
  that matches no other subtopic pattern and has no two consecutive spaces, is not
  classified as a subtopic and is not kept: the bullet line after it is the only
  subtopic of the subject.
\<close>

theorem colon_segment_line_dropped:
  "\<not> is_subtopic (str ''note: alpha, beta'') \<and>
   extract_from_lines [str ''Module I: [10L]'', str ''note: alpha, beta'', str ''- kept''] =
     Some ([(str ''Module I: [10L]'', [str ''kept''])], [])"
  by (simp add: pattern_defs table_defs extract_defs)

section \<open>Trimming\<close>








section \<open>The stripping pattern\<close>

lemma rep_greedy_end:
  "rep c 0 None (\<lambda>pre s. Some s) pre s = Some (dropWhile (cls_mem c) s)"
  by (induction s arbitrary: pre) simp_all




lemma rep_calls_cont:
  "rep c lo hi k pre s = Some r \<Longrightarrow> \<exists>pre' s'. k pre' s' = Some r \<and> length s' \<le> length s"
proof (induction s arbitrary: lo hi pre)
  case Nil
  then show ?case by (auto split: if_splits)
next
  case (Cons x xs)
  show ?case
  proof (cases "cls_mem c x \<and> hi \<noteq> Some 0")
    case True
    show ?thesis
    proof (cases "rep c (lo - 1) (map_option (\<lambda>h. h - 1) hi) k (x # pre) xs")
      case None
      with True Cons.prems have "k pre (x # xs) = Some r" by (simp split: if_splits)
      then show ?thesis by blast
    next
      case (Some r')
      with True Cons.prems have "r' = r" by simp
      with Some Cons.IH obtain pre' s' where "k pre' s' = Some r" "length s' \<le> length xs"
        by blast
      then show ?thesis by (intro exI [of _ pre'] exI [of _ s']) simp
    qed
  next
    case False
    with Cons.prems have "k pre (x # xs) = Some r" by (simp split: if_splits)
    then show ?thesis by blast
  qed
qed

lemma step_Rep: "step (Rep c lo hi) k = rep c lo hi k"
  by (intro ext) simp

lemma strip_marker_consumes:
  assumes "run STRIP_PATTERN pre s = Some rest"
  shows "length rest < length s"
proof -
  let ?k2 = "rep (In [Space]) 0 None (\<lambda>pre s. Some s)"
  let ?k1 = "step (One (In (bullets @ [Digit, chr CHR ''.'']))) ?k2"
  from assms have "rep (In [Space]) 0 None ?k1 pre s = Some rest"
    by (simp add: STRIP_PATTERN_def many0_def step_Rep del: cls_mem.simps rep.simps
        split: if_splits)
  then obtain pre1 s1 where k1: "?k1 pre1 s1 = Some rest" and s1: "length s1 \<le> length s"
    using rep_calls_cont by blast
  from k1 obtain x xs where x: "s1 = x # xs" and k2: "?k2 (x # pre1) xs = Some rest"
    by (cases s1) (auto simp del: cls_mem.simps rep.simps split: if_splits)
  from k2 have "rest = dropWhile (cls_mem (In [Space])) xs"
    by (simp add: rep_greedy_end del: cls_mem.simps rep.simps)
  then have "length rest \<le> length xs"
    by (simp add: length_dropWhile_le del: cls_mem.simps)
  with x s1 show ?thesis by simp
qed


section \<open>The subtopics the primary pass keeps\<close>








section \<open>The registry of check boxes\<close>

lemma keys_dict_set_present: "k \<in> set (keys d) \<Longrightarrow> keys (dict_set k v d) = keys d"
  by (induction k v d rule: dict_set.induct) (auto simp: keys_def)

lemma keys_create_subject_frame:
  "set (keys (create_subject_frame items vars)) = set (keys vars) \<union> set items"
  by (induction items arbitrary: vars) (auto simp: keys_dict_set)

lemma keys_create_subject_frame_extends:
  "\<exists>new. keys (create_subject_frame items vars) = keys vars @ new"
proof (induction items arbitrary: vars)
  case Nil
  then show ?case by simp
next
  case (Cons item items)
  obtain new1 where "keys (dict_set item False vars) = keys vars @ new1"
    using keys_dict_set_extends [of item False vars] by blast
  moreover obtain new2 where
    "keys (create_subject_frame items (dict_set item False vars)) =
       keys (dict_set item False vars) @ new2"
    using Cons.IH [of "dict_set item False vars"] by blast
  ultimately show ?case by simp
qed

lemma flatten_Nil: "flatten [] = []"
  by (simp add: flatten_def)

lemma flatten_Cons: "flatten ((subject, items) # m) = items @ flatten m"
  by (simp add: flatten_def)

lemma keys_create_frames:
  "set (keys (create_frames m vars)) = set (keys vars) \<union> set (flatten m)"
proof (induction m arbitrary: vars)
  case Nil
  then show ?case by (simp add: flatten_Nil)
next
  case (Cons entry m)
  obtain subject items where entry: "entry = (subject, items)" by (cases entry)
  show ?case
    unfolding entry by (simp add: Cons.IH keys_create_subject_frame flatten_Cons Un_assoc)
qed

lemma keys_create_frames_extends: "\<exists>new. keys (create_frames m vars) = keys vars @ new"
proof (induction m arbitrary: vars)
  case Nil
  then show ?case by simp
next
  case (Cons entry m)
  obtain subject items where entry: "entry = (subject, items)" by (cases entry)
  obtain new1 where "keys (create_subject_frame items vars) = keys vars @ new1"
    using keys_create_subject_frame_extends [of items vars] by blast
  moreover obtain new2 where
    "keys (create_frames m (create_subject_frame items vars)) =
       keys (create_subject_frame items vars) @ new2"
    using Cons.IH [of "create_subject_frame items vars"] by blast
  ultimately show ?case by (simp add: entry)
qed

lemma keys_apply_progress: "keys (fst (apply_progress progress vars)) = keys vars"
  by (induction progress vars rule: apply_progress.induct)
     (auto simp: keys_dict_set_present split: jvalue.splits)

lemma keys_load_progress:
  "keys (checkbox_vars (fst (load_progress st disk))) = keys (checkbox_vars st)"
  using keys_apply_progress [of _ "checkbox_vars st"]
  by (auto simp: load_progress_def split: stored.splits prod.splits) (metis fst_conv)

lemma topics_load_progress: "topics (fst (load_progress st disk)) = topics st"
  by (simp add: load_progress_def split: stored.splits prod.splits)

lemma keys_refresh_ui:
  "keys (checkbox_vars (fst (refresh_ui st disk))) = keys (create_frames (topics st) (checkbox_vars st))"
  by (simp add: refresh_ui_def keys_load_progress)

lemma keys_progress_record: "keys (progress_record st) = keys (checkbox_vars st)"
  by (simp add: progress_record_def keys_def)

lemma progress_record_flags: "progress_record st = checkbox_vars st"
  by (simp add: progress_record_def)

text \<open>
  The loop of \<^verbatim>\<open>load_progress\<close> runs to its end exactly when every key it finds in the
  registry holds a truth value; the keys it does not find are passed over.
\<close>

lemma apply_progress_completes:
  "snd (apply_progress progress vars) \<longleftrightarrow>
     (\<forall>(topic, is_completed)\<in>set progress. topic \<in> set (keys vars) \<longrightarrow> is_completed \<noteq> Invalid)"
proof (induction progress vars rule: apply_progress.induct)
  case (1 vars)
  then show ?case by simp
next
  case (2 topic is_completed progress vars)
  show ?case
  proof (cases "topic \<in> set (keys vars)")
    case False
    with 2 show ?thesis by simp
  next
    case True
    show ?thesis
    proof (cases is_completed)
      case Invalid
      with True show ?thesis by auto
    next
      case (AsBool b)
      from True have "keys (dict_set topic b vars) = keys vars" by (rule keys_dict_set_present)
      with 2(1) [OF True AsBool] True AsBool show ?thesis by simp
    qed
  qed
qed

text \<open>
  C8, as the specification states it: after the reconciliation the keys of the
  completion flags would be exactly the flattened subtopics of the current map. With
  "Old" in the registry from an earlier document, a map whose only subtopic is "New"
  and a progress file that holds "Gone", the registry ends with the keys "Old" and
  "New": "Gone" is not added, and "Old" is a key that is not a subtopic of the map.
\<close>

theorem reconciliation_keeps_old_keys:
  "keys (checkbox_vars (fst (refresh_ui
      \<lparr>topics = [(str ''Subject:'', [str ''New''])], checkbox_vars = [(str ''Old'', True)]\<rparr>
      (Parsed [(str ''Gone'', AsBool True)])))) = [str ''Old'', str ''New''] \<and>
   flatten [(str ''Subject:'', [str ''New''])] = [str ''New'']"
  by (simp add: refresh_ui_def load_progress_def keys_def flatten_def str_def)

text \<open>
  C8, amended: after \<^verbatim>\<open>refresh_ui\<close> the keys of the registry are the keys it had
  before together with the flattened subtopics of the current map, whatever the
  progress file holds: no key of the file that is not among them is added and no
  subtopic of the map is missing. From the empty registry, as at the first document
  of a session, the keys are exactly the flattened subtopics. A stale key of the file
  raises no error: with no file nothing is reported, and with a file that holds an
  object the load reports an error exactly when a key that is in the registry holds a
  value that is no truth value, and otherwise that the progress is loaded.
\<close>

theorem reconciliation_keys:
  "set (keys (checkbox_vars (fst (refresh_ui st disk)))) =
     set (keys (checkbox_vars st)) \<union> set (flatten (topics st)) \<and>
   set (keys (checkbox_vars (fst (refresh_ui (st\<lparr>checkbox_vars := []\<rparr>) disk)))) =
     set (flatten (topics st)) \<and>
   snd (refresh_ui st NoFile) = [] \<and>
   (snd (refresh_ui st (Parsed progress)) = [DebugProgressLoaded] \<longleftrightarrow>
      (\<forall>(topic, is_completed)\<in>set progress.
          topic \<in> set (keys (checkbox_vars st)) \<union> set (flatten (topics st)) \<longrightarrow>
          is_completed \<noteq> Invalid)) \<and>
   (snd (refresh_ui st (Parsed progress)) = [ErrorLoadProgress] \<or>
    snd (refresh_ui st (Parsed progress)) = [DebugProgressLoaded])"
proof -
  have nil: "keys ([] :: (pystr, bool) dict) = []" by (simp add: keys_def)
  let ?vars = "create_frames (topics st) (checkbox_vars st)"
  obtain vars' completed where ap: "apply_progress progress ?vars = (vars', completed)"
    by (cases "apply_progress progress ?vars")
  have "completed \<longleftrightarrow> (\<forall>(topic, is_completed)\<in>set progress.
          topic \<in> set (keys ?vars) \<longrightarrow> is_completed \<noteq> Invalid)"
    using apply_progress_completes [of progress ?vars] ap by simp
  then have events: "snd (refresh_ui st (Parsed progress)) = [DebugProgressLoaded] \<longleftrightarrow>
      (\<forall>(topic, is_completed)\<in>set progress.
          topic \<in> set (keys (checkbox_vars st)) \<union> set (flatten (topics st)) \<longrightarrow>
          is_completed \<noteq> Invalid)"
    by (simp add: refresh_ui_def load_progress_def ap keys_create_frames)
  have either: "snd (refresh_ui st (Parsed progress)) = [ErrorLoadProgress] \<or>
    snd (refresh_ui st (Parsed progress)) = [DebugProgressLoaded]"
    by (simp add: refresh_ui_def load_progress_def ap)
  have none: "snd (refresh_ui st NoFile) = []" by (simp add: refresh_ui_def load_progress_def)
  from nil events either none show ?thesis by (simp add: keys_refresh_ui keys_create_frames)
qed

theorem reconciliation_keys_witness:
  "snd (refresh_ui
      \<lparr>topics = [(str ''Subject:'', [str ''New''])], checkbox_vars = [(str ''Old'', True)]\<rparr>
      (Parsed [(str ''Gone'', Invalid), (str ''New'', AsBool True)])) = [DebugProgressLoaded]"
  using reconciliation_keys [of
      "\<lparr>topics = [(str ''Subject:'', [str ''New''])], checkbox_vars = [(str ''Old'', True)]\<rparr>"
      NoFile "[(str ''Gone'', Invalid), (str ''New'', AsBool True)]"]
  by (simp add: keys_def flatten_def str_def)

text \<open>
  C10: neither \<^verbatim>\<open>refresh_ui\<close> nor \<^verbatim>\<open>load_pdf\<close> removes a key from the registry: the
  keys it had stay, in their order, and new ones come after them; so the record that
  the next save writes has every key of the documents loaded before.
\<close>

theorem registry_only_grows:
  "(\<exists>new. keys (checkbox_vars (fst (refresh_ui st disk))) = keys (checkbox_vars st) @ new) \<and>
   (\<exists>new. keys (checkbox_vars (fst (load_pdf st choice disk))) = keys (checkbox_vars st) @ new) \<and>
   (\<exists>new. keys (progress_record (fst (load_pdf st choice disk))) = keys (checkbox_vars st) @ new)"
proof -
  have refresh: "\<exists>new. keys (checkbox_vars (fst (refresh_ui s disk))) = keys (checkbox_vars s0) @ new"
    if "checkbox_vars s = checkbox_vars s0" for s s0 :: tracker
    using that keys_create_frames_extends [of "topics s" "checkbox_vars s"]
    by (simp add: keys_refresh_ui)
  have load: "\<exists>new. keys (checkbox_vars (fst (load_pdf st choice disk))) = keys (checkbox_vars st) @ new"
  proof (cases choice)
    case None
    then show ?thesis by (simp add: load_pdf_def)
  next
    case (Some document)
    obtain extracted events where ex: "extract_topics_from_pdf document = (extracted, events)"
      by (cases "extract_topics_from_pdf document")
    show ?thesis
    proof (cases "extracted = []")
      case True
      with Some ex show ?thesis by (simp add: load_pdf_def)
    next
      case False
      obtain st' events' where r: "refresh_ui (st\<lparr>topics := extracted\<rparr>) disk = (st', events')"
        by (cases "refresh_ui (st\<lparr>topics := extracted\<rparr>) disk")
      have "\<exists>new. keys (checkbox_vars (fst (refresh_ui (st\<lparr>topics := extracted\<rparr>) disk))) =
              keys (checkbox_vars st) @ new"
        by (rule refresh) simp
      with False Some ex r show ?thesis by (simp add: load_pdf_def)
    qed
  qed
  from refresh [of st st] load show ?thesis by (simp add: keys_progress_record)
qed

section \<open>Saving\<close>

text \<open>
  C9, as stated: after every call of \<^verbatim>\<open>check_progress\<close> the progress file would hold
  the current flags. With "Unit Tests" completed, the prior content \<^verbatim>\<open>{}\<close> and a file
  that cannot be opened for writing, the file still holds \<^verbatim>\<open>{}\<close> after the call,
  which is not the serialized flags.
\<close>

theorem check_progress_may_not_overwrite:
  "fst (check_progress \<lparr>topics = [], checkbox_vars = [(str ''Unit Tests'', True)]\<rparr>
         OpenForWriteFails (Some (str ''{}''))) = Some (str ''{}'') \<and>
   json_dumps [(str ''Unit Tests'', True)] = [123, 34] @ str ''Unit Tests'' @ [34] @ str '': true}''"
  by (simp add: check_progress_def Let_def save_progress_def progress_record_def json_dumps_def
      json_item_def json_string_def escape_char_def str_def)

text \<open>
  C9, amended: \<^verbatim>\<open>check_progress\<close> also saves: for every outcome of the write it leaves
  the progress file as \<^verbatim>\<open>save_progress\<close> does, and after its report its events are
  those of the save. When the write succeeds the file holds the serialized current
  flags; when the file cannot be opened it keeps its prior content; when the write
  fails part-way it holds the part of the serialized flags written so far.
\<close>

theorem check_progress_saves:
  "fst (check_progress st outcome f) = fst (save_progress st outcome f) \<and>
   tl (snd (check_progress st outcome f)) = snd (save_progress st outcome f) \<and>
   fst (check_progress st WriteSucceeds f) = Some (json_dumps (checkbox_vars st)) \<and>
   fst (check_progress st OpenForWriteFails f) = f \<and>
   fst (check_progress st (WriteFailsAfter n) f) = Some (take n (json_dumps (checkbox_vars st)))"
  by (simp add: check_progress_def Let_def save_progress_def progress_record_flags
      split: prod.splits write_outcome.splits)

text \<open>
  C7, as the specification states it: after a save the file would hold either the
  full serialized record or its prior content. With "Unit Tests" completed, the prior
  content \<^verbatim>\<open>{}\<close> and a write that fails after five characters, the file holds the
  first five characters of the record: neither of the two.
\<close>

theorem save_not_atomic:
  "json_dumps (progress_record \<lparr>topics = [], checkbox_vars = [(str ''Unit Tests'', True)]\<rparr>) =
     [123, 34] @ str ''Unit Tests'' @ [34] @ str '': true}'' \<and>
   fst (save_progress \<lparr>topics = [], checkbox_vars = [(str ''Unit Tests'', True)]\<rparr>
         (WriteFailsAfter 5) (Some (str ''{}''))) = Some ([123, 34] @ str ''Uni'')"
  by (simp add: save_progress_def progress_record_def json_dumps_def json_item_def json_string_def
      escape_char_def str_def)

text \<open>
  C7, amended: a save is not atomic. Either it reports success and the file holds
  exactly the full serialized record; or it reports an error, and the file holds its
  prior content (it could not be opened for writing) or, the prior content lost, the
  part of the serialized record written before the failure, which may be empty.
\<close>

theorem save_outcomes:
  "(snd (save_progress st outcome f) = [InfoProgressSaved] \<and>
    fst (save_progress st outcome f) = Some (json_dumps (progress_record st))) \<or>
   (snd (save_progress st outcome f) = [ErrorSaveProgress] \<and>
    (fst (save_progress st outcome f) = f \<or>
     (\<exists>n. fst (save_progress st outcome f) = Some (take n (json_dumps (progress_record st))))))"
  by (cases outcome) (auto simp: save_progress_def)

section \<open>Further properties\<close>

text \<open>The sixth subtopic pattern is dead: under \<^verbatim>\<open>re.match\<close> it matches no line.\<close>

lemma look_behind_pattern_dead: "\<not> re_match (SUBTOPIC_PATTERNS ! 5) line"
  by (simp add: SUBTOPIC_PATTERNS_def look_behind_never_matches)

text \<open>
  A document that opens and is read never gives the "Error" map through an exception
  in the loops: the result is that of the lines, after the events of the pages that
  gave no text, and it has a subject.
\<close>

lemma extract_topics_from_pdf_pages:
  "\<exists>m events. extract_from_lines (split 10 (pages_text pages)) = Some (m, events) \<and>
     extract_topics_from_pdf (Pages pages) = (m, page_errors 0 pages @ events) \<and> m \<noteq> []"
  using extract_from_lines_result [of "split 10 (pages_text pages)"]
  by (auto simp: extract_topics_from_pdf_def)

end
